theory Spec2Isabelle
  imports Main
begin

section \<open>The streaming chat session of ChatComponent.tsx and projects/Chat.tsx\<close>

text \<open>
  The repository holds two copies of the chat session logic:
  \<^verbatim>\<open>src/components/ChatComponent.tsx\<close> and \<^verbatim>\<open>src/components/projects/Chat.tsx\<close>.
  The functions have the same names in both files and differ in a few places, so every
  operation below takes the component as its first argument and follows the text of the
  named file in each branch.

  Each event handler runs to completion before the next event; the state setters and
  the functional updates of \<^verbatim>\<open>chatMessages\<close> are applied in the order the handler
  issues them and before the next event is handled, so a handler is a function from the
  state before it to the state after it.
\<close>

datatype component = ChatComponent | ProjectsChat

subsection \<open>Values read from a parsed frame\<close>

text \<open>
  \<^verbatim>\<open>JSON.parse\<close> yields untyped values. The handlers observe a field in three ways only:
  strict equality with a string literal, truthiness, and its rendering inside a template
  literal. Numbers, arrays and objects are therefore kept as \<open>JOpaque\<close>, carrying their
  truthiness and their rendering.
\<close>

datatype jsval = JUndefined | JNull | JBool bool | JStr string | JOpaque bool string

fun truthy :: "jsval \<Rightarrow> bool" where
  "truthy JUndefined = False"
| "truthy JNull = False"
| "truthy (JBool b) = b"
| "truthy (JStr s) = (s \<noteq> [])"
| "truthy (JOpaque t r) = t"

fun js_to_string :: "jsval \<Rightarrow> string" where
  "js_to_string JUndefined = ''undefined''"
| "js_to_string JNull = ''null''"
| "js_to_string (JBool b) = (if b then ''true'' else ''false'')"
| "js_to_string (JStr s) = s"
| "js_to_string (JOpaque t r) = r"

text \<open>
  \<^verbatim>\<open>String.prototype.trim\<close> on strings of code units below 256: the white space and
  line terminators in that range are TAB, LF, VT, FF, CR, SP and NBSP.
\<close>

definition js_whitespace :: "char \<Rightarrow> bool" where
  "js_whitespace ch = (of_char ch \<in> {9, 10, 11, 12, 13, 32, 160 :: nat})"

definition js_trim :: "string \<Rightarrow> string" where
  "js_trim s = rev (dropWhile js_whitespace (rev (dropWhile js_whitespace s)))"

text \<open>\<^verbatim>\<open>a || b\<close> on an optional string: the empty string and \<^verbatim>\<open>undefined\<close> are falsy.\<close>

definition or_default :: "string option \<Rightarrow> string \<Rightarrow> string" where
  "or_default v d = (case v of None \<Rightarrow> d | Some x \<Rightarrow> if x = [] then d else x)"

text \<open>\<^verbatim>\<open>s.replace(pat, rep)\<close> with a string pattern replaces the first occurrence.\<close>

fun replace_first :: "string \<Rightarrow> string \<Rightarrow> string \<Rightarrow> string" where
  "replace_first pat rep [] = (if pat = [] then rep else [])"
| "replace_first pat rep (x # xs) =
     (if take (length pat) (x # xs) = pat then rep @ drop (length pat) (x # xs)
      else x # replace_first pat rep xs)"

definition startsWith :: "string \<Rightarrow> string \<Rightarrow> bool" where
  "startsWith s p = (take (length p) s = p)"

subsection \<open>Data model\<close>

datatype message_type = MQuery | MChunk | MResponse | MError | MSystem

text \<open>\<^verbatim>\<open>interface InternalMessage { type; content: string; isComplete?: boolean }\<close>\<close>

record InternalMessage =
  type :: message_type
  content :: string
  isComplete :: "bool option"

datatype ready_state = CONNECTING | OPEN | CLOSING | CLOSED

text \<open>
  The three outbound shapes: \<^verbatim>\<open>{query, sessionId}\<close>, \<^verbatim>\<open>{type: 'cancel', sessionId}\<close>
  and \<^verbatim>\<open>{cancel: true, sessionId}\<close>.
\<close>

datatype outbound =
    QueryFrame string string
  | CancelTypeFrame string
  | CancelFlagFrame string

record websocket =
  url :: string
  readyState :: ready_state
  sent :: "outbound list"

text \<open>
  A parsed inbound frame: the four fields \<^verbatim>\<open>ws.onmessage\<close> reads from the object that
  \<^verbatim>\<open>JSON.parse\<close> returns, an absent field being \<open>JUndefined\<close>. \<open>fdata\<close> is taken at
  the type \<^verbatim>\<open>appendResponseChunk(chunk: string)\<close> declares for it.
\<close>

record frame =
  ftype :: jsval
  fdata :: string
  fmessage :: jsval
  ferror :: jsval

text \<open>\<^verbatim>\<open>import.meta.env\<close> and \<^verbatim>\<open>window.location.protocol\<close>, fixed for a page load.\<close>

record environment =
  VITE_WEB_SOCKET_URL :: "string option"
  VITE_API_HOST :: "string option"
  location_protocol :: string

text \<open>
  The state of one mounted component. \<open>sockets\<close> is the store of every \<^verbatim>\<open>WebSocket\<close>
  constructed so far; \<open>wsRef\<close> holds an index into it or \<open>None\<close> for \<^verbatim>\<open>null\<close>.
  \<open>timers\<close> counts the reconnect timeouts that \<^verbatim>\<open>ws.onclose\<close> has scheduled and that
  have not fired yet. The display list \<^verbatim>\<open>messages\<close> is recomputed from
  \<^verbatim>\<open>chatMessages\<close> and is left out, as are the document table and the clipboard markers.
\<close>

record chat_state =
  connected :: bool
  chatMessages :: "InternalMessage list"
  query :: string
  isStreaming :: bool
  isWaitingForResponse :: bool
  sessionId :: string
  wsRef :: "nat option"
  currentResponseIndexRef :: int
  sockets :: "websocket list"
  timers :: nat

definition initial :: "string \<Rightarrow> chat_state" where
  "initial sid =
     \<lparr>connected = False, chatMessages = [], query = [], isStreaming = False,
      isWaitingForResponse = False, sessionId = sid, wsRef = None,
      currentResponseIndexRef = - 1, sockets = [], timers = 0\<rparr>"

subsection \<open>The socket handle\<close>

text \<open>\<^verbatim>\<open>wsRef.current?.readyState === WebSocket.OPEN\<close>\<close>

definition ws_is_open :: "chat_state \<Rightarrow> bool" where
  "ws_is_open s =
     (case wsRef s of None \<Rightarrow> False
      | Some i \<Rightarrow> i < length (sockets s) \<and> readyState (sockets s ! i) = OPEN)"

text \<open>\<^verbatim>\<open>!wsRef.current || wsRef.current.readyState === WebSocket.CLOSED\<close>\<close>

definition ws_absent_or_closed :: "chat_state \<Rightarrow> bool" where
  "ws_absent_or_closed s =
     (case wsRef s of None \<Rightarrow> True
      | Some i \<Rightarrow> i < length (sockets s) \<and> readyState (sockets s ! i) = CLOSED)"

text \<open>\<^verbatim>\<open>wsRef.current.send(...)\<close>, called only behind a check that the socket is open.\<close>

definition ws_send :: "outbound \<Rightarrow> chat_state \<Rightarrow> chat_state" where
  "ws_send m s =
     (case wsRef s of None \<Rightarrow> s
      | Some i \<Rightarrow>
          if i < length (sockets s)
          then s\<lparr>sockets := (sockets s)[i := (sockets s ! i)\<lparr>sent := sent (sockets s ! i) @ [m]\<rparr>]\<rparr>
          else s)"

text \<open>\<^verbatim>\<open>WebSocket.close()\<close>: a socket that is not yet closing or closed starts closing.\<close>

definition ws_close :: "websocket \<Rightarrow> websocket" where
  "ws_close w =
     (if readyState w = CLOSING \<or> readyState w = CLOSED then w
      else w\<lparr>readyState := CLOSING\<rparr>)"

subsection \<open>Transcript operations\<close>

definition addMessage :: "message_type \<Rightarrow> string \<Rightarrow> chat_state \<Rightarrow> chat_state" where
  "addMessage t c s =
     s\<lparr>chatMessages := chatMessages s @ [\<lparr>type = t, content = c, isComplete = Some True\<rparr>]\<rparr>"

text \<open>
  The turn a chunk starts: \<^verbatim>\<open>{ type: 'chunk', content: chunk }\<close> in ChatComponent.tsx,
  \<^verbatim>\<open>{ type: 'chunk', content: chunk, isComplete: false }\<close> in projects/Chat.tsx.
\<close>

definition newMessage :: "component \<Rightarrow> string \<Rightarrow> InternalMessage" where
  "newMessage c chunk =
     (case c of
        ChatComponent \<Rightarrow> \<lparr>type = MChunk, content = chunk, isComplete = None\<rparr>
      | ProjectsChat \<Rightarrow> \<lparr>type = MChunk, content = chunk, isComplete = Some False\<rparr>)"

text \<open>
  \<^verbatim>\<open>currentResponseIndexRef.current >= 0 && currentResponseIndexRef.current < prev.length\<close>.
  Under this guard \<^verbatim>\<open>newMessages[currentResponseIndexRef.current]\<close> is an element of the
  array, so the inner check \<^verbatim>\<open>if (currentMessage)\<close> always passes.
\<close>

definition index_in_range :: "chat_state \<Rightarrow> bool" where
  "index_in_range s =
     (0 \<le> currentResponseIndexRef s \<and> currentResponseIndexRef s < int (length (chatMessages s)))"

definition appendResponseChunk :: "component \<Rightarrow> string \<Rightarrow> chat_state \<Rightarrow> chat_state" where
  "appendResponseChunk c chunk s =
     (let s1 = s\<lparr>isStreaming := True, isWaitingForResponse := False\<rparr>;
          prev = chatMessages s1;
          i = nat (currentResponseIndexRef s1)
      in if index_in_range s1
         then s1\<lparr>chatMessages := prev[i := (prev ! i)\<lparr>content := content (prev ! i) @ chunk\<rparr>]\<rparr>
         else s1\<lparr>currentResponseIndexRef := int (length prev),
                 chatMessages := prev @ [newMessage c chunk]\<rparr>)"

definition completeCurrentResponse :: "component \<Rightarrow> chat_state \<Rightarrow> chat_state" where
  "completeCurrentResponse c s =
     (case c of
        ChatComponent \<Rightarrow>
          (let s1 = s\<lparr>isStreaming := False, isWaitingForResponse := False\<rparr>
           in if 0 \<le> currentResponseIndexRef s1 then s1\<lparr>currentResponseIndexRef := - 1\<rparr> else s1)
      | ProjectsChat \<Rightarrow>
          (let prev = chatMessages s; i = nat (currentResponseIndexRef s)
           in if index_in_range s
              then s\<lparr>chatMessages := prev[i := (prev ! i)\<lparr>type := MResponse, isComplete := Some True\<rparr>],
                     currentResponseIndexRef := - 1\<rparr>
              else s))"

subsection \<open>Connection manager\<close>

definition wsUrl :: "component \<Rightarrow> environment \<Rightarrow> string" where
  "wsUrl c env =
     (case c of
        ChatComponent \<Rightarrow> or_default (VITE_WEB_SOCKET_URL env) ''ws://localhost:8000/ws/query''
      | ProjectsChat \<Rightarrow>
          (let protocol = (if location_protocol env = ''https:'' then ''wss:'' else ''ws:'');
               u = or_default (VITE_WEB_SOCKET_URL env) []
           in if u = []
              then protocol @ ''//'' @ or_default (VITE_API_HOST env) ''localhost:8000'' @ ''/ws/query''
              else if startsWith u ''ws://'' \<and> protocol = ''wss:''
              then replace_first ''ws://'' ''wss://'' u
              else u))"

definition connect :: "component \<Rightarrow> environment \<Rightarrow> chat_state \<Rightarrow> chat_state" where
  "connect c env s =
     (if ws_is_open s then s
      else s\<lparr>sockets := sockets s @ [\<lparr>url = wsUrl c env, readyState = CONNECTING, sent = []\<rparr>],
             wsRef := Some (length (sockets s))\<rparr>)"

definition disconnect :: "chat_state \<Rightarrow> chat_state" where
  "disconnect s =
     (case wsRef s of None \<Rightarrow> s
      | Some i \<Rightarrow>
          (if i < length (sockets s)
           then s\<lparr>sockets := (sockets s)[i := ws_close (sockets s ! i)]\<rparr>
           else s)\<lparr>wsRef := None\<rparr>)"

definition onopen :: "chat_state \<Rightarrow> chat_state" where
  "onopen s = addMessage MSystem ''Connected to WebSocket'' (s\<lparr>connected := True\<rparr>)"

definition onmessage :: "component \<Rightarrow> frame \<Rightarrow> chat_state \<Rightarrow> chat_state" where
  "onmessage c f s =
     (if ftype f = JStr ''chunk'' then appendResponseChunk c (fdata f) s
      else if ftype f = JStr ''end'' \<or> ftype f = JStr ''done'' then
        addMessage MSystem ''--- End of Response ---''
          ((completeCurrentResponse c s)\<lparr>isStreaming := False, isWaitingForResponse := False\<rparr>)
      else if ftype f = JStr ''cancelled'' then
        addMessage MSystem (''--- Request cancelled: '' @ js_to_string (fmessage f) @ '' ---'')
          ((completeCurrentResponse c s)\<lparr>isStreaming := False, isWaitingForResponse := False\<rparr>)
      else if truthy (ferror f) then
        addMessage MError (''Error: '' @ js_to_string (ferror f))
          (s\<lparr>isStreaming := False, isWaitingForResponse := False\<rparr>)
      else s)"

text \<open>The callback of the timeout that \<^verbatim>\<open>ws.onclose\<close> schedules.\<close>

definition reconnect :: "component \<Rightarrow> environment \<Rightarrow> chat_state \<Rightarrow> chat_state" where
  "reconnect c env s = (if ws_absent_or_closed s then connect c env s else s)"

definition onclose :: "chat_state \<Rightarrow> chat_state" where
  "onclose s =
     (addMessage MSystem ''Disconnected from WebSocket'' (s\<lparr>connected := False\<rparr>))
       \<lparr>timers := Suc (timers s)\<rparr>"

text \<open>The error event is rendered by the template literal as \<^verbatim>\<open>[object Event]\<close>.\<close>

definition onerror :: "chat_state \<Rightarrow> chat_state" where
  "onerror s = addMessage MError ''WebSocket Error: [object Event]'' (s\<lparr>connected := False\<rparr>)"

subsection \<open>User actions\<close>

definition sendQuery :: "chat_state \<Rightarrow> chat_state" where
  "sendQuery s =
     (if js_trim (query s) = [] then s
      else if ws_is_open s
      then (ws_send (QueryFrame (query s) (sessionId s))
              (addMessage MQuery (query s)
                 (s\<lparr>isStreaming := False, isWaitingForResponse := True\<rparr>)))\<lparr>query := []\<rparr>
      else s)"

text \<open>The click handler of a suggestion card.\<close>

definition clickSuggestion :: "component \<Rightarrow> string \<Rightarrow> chat_state \<Rightarrow> chat_state" where
  "clickSuggestion c suggestion s =
     (if connected s \<and> \<not> isStreaming s
      then let s0 = (case c of ChatComponent \<Rightarrow> s\<lparr>query := suggestion\<rparr> | ProjectsChat \<Rightarrow> s)
           in if ws_is_open s0
              then (ws_send (QueryFrame suggestion (sessionId s0))
                      (addMessage MQuery suggestion
                         (s0\<lparr>isStreaming := False, isWaitingForResponse := True\<rparr>)))\<lparr>query := []\<rparr>
              else s0
      else s)"

definition cancelRequest :: "component \<Rightarrow> chat_state \<Rightarrow> chat_state" where
  "cancelRequest c s =
     (if ws_is_open s
      then case c of
        ChatComponent \<Rightarrow>
          addMessage MSystem ''--- Cancellation requested ---''
            (ws_send (CancelTypeFrame (sessionId s))
               (s\<lparr>isStreaming := False, isWaitingForResponse := False\<rparr>))
      | ProjectsChat \<Rightarrow>
          addMessage MSystem ''--- Request cancelled by user ---''
            (completeCurrentResponse ProjectsChat
               ((ws_send (CancelFlagFrame (sessionId s)) s)
                  \<lparr>isStreaming := False, isWaitingForResponse := False\<rparr>))
      else s)"

text \<open>The new identifier comes from \<^verbatim>\<open>Math.random()\<close> and is an argument here.\<close>

definition handleNewSession :: "component \<Rightarrow> string \<Rightarrow> chat_state \<Rightarrow> chat_state" where
  "handleNewSession c sid s =
     (case c of
        ChatComponent \<Rightarrow>
          addMessage MSystem (''New session started: '' @ sid)
            (s\<lparr>sessionId := sid, chatMessages := [], query := [],
               isStreaming := False, isWaitingForResponse := False\<rparr>)
      | ProjectsChat \<Rightarrow>
          addMessage MSystem ''--- New Session Started ---''
            (s\<lparr>sessionId := sid, chatMessages := []\<rparr>))"

subsection \<open>Events\<close>

text \<open>
  What the browser does around a handler: a connecting socket opens, an open socket
  delivers a message, a socket that is not closed yet closes, and a pending timeout fires.
  \<open>Mount\<close> and \<open>Unmount\<close> are the effect \<^verbatim>\<open>useEffect(() => { connect(); return () => { disconnect(); }; }, [])\<close>;
  \<open>SetQuery\<close> is the input's \<^verbatim>\<open>onChange\<close>.
\<close>

definition set_readyState :: "nat \<Rightarrow> ready_state \<Rightarrow> chat_state \<Rightarrow> chat_state" where
  "set_readyState i r s = s\<lparr>sockets := (sockets s)[i := (sockets s ! i)\<lparr>readyState := r\<rparr>]\<rparr>"

definition socket_opens :: "nat \<Rightarrow> chat_state \<Rightarrow> chat_state" where
  "socket_opens i s =
     (if i < length (sockets s) \<and> readyState (sockets s ! i) = CONNECTING
      then onopen (set_readyState i OPEN s) else s)"

definition socket_message :: "component \<Rightarrow> nat \<Rightarrow> frame \<Rightarrow> chat_state \<Rightarrow> chat_state" where
  "socket_message c i f s =
     (if i < length (sockets s) \<and> readyState (sockets s ! i) = OPEN
      then onmessage c f s else s)"

definition socket_errors :: "nat \<Rightarrow> chat_state \<Rightarrow> chat_state" where
  "socket_errors i s = (if i < length (sockets s) then onerror s else s)"

definition socket_closes :: "nat \<Rightarrow> chat_state \<Rightarrow> chat_state" where
  "socket_closes i s =
     (if i < length (sockets s) \<and> readyState (sockets s ! i) \<noteq> CLOSED
      then onclose (set_readyState i CLOSED s) else s)"

definition timer_fires :: "component \<Rightarrow> environment \<Rightarrow> chat_state \<Rightarrow> chat_state" where
  "timer_fires c env s =
     (if timers s = 0 then s else reconnect c env (s\<lparr>timers := timers s - 1\<rparr>))"

datatype event =
    Mount
  | Unmount
  | SocketOpens nat
  | SocketMessage nat frame
  | SocketErrors nat
  | SocketCloses nat
  | TimerFires
  | SetQuery string
  | SendQuery
  | ClickSuggestion string
  | CancelRequest
  | NewSession string

fun step :: "component \<Rightarrow> environment \<Rightarrow> event \<Rightarrow> chat_state \<Rightarrow> chat_state" where
  "step c env Mount s = connect c env s"
| "step c env Unmount s = disconnect s"
| "step c env (SocketOpens i) s = socket_opens i s"
| "step c env (SocketMessage i f) s = socket_message c i f s"
| "step c env (SocketErrors i) s = socket_errors i s"
| "step c env (SocketCloses i) s = socket_closes i s"
| "step c env TimerFires s = timer_fires c env s"
| "step c env (SetQuery q) s = s\<lparr>query := q\<rparr>"
| "step c env SendQuery s = sendQuery s"
| "step c env (ClickSuggestion g) s = clickSuggestion c g s"
| "step c env CancelRequest s = cancelRequest c s"
| "step c env (NewSession sid) s = handleNewSession c sid s"

definition run :: "component \<Rightarrow> environment \<Rightarrow> event list \<Rightarrow> chat_state \<Rightarrow> chat_state" where
  "run c env evs s = fold (step c env) evs s"

text \<open>Frames with one field set, as the backend sends them.\<close>

definition chunkFrame :: "string \<Rightarrow> frame" where
  "chunkFrame d = \<lparr>ftype = JStr ''chunk'', fdata = d, fmessage = JUndefined, ferror = JUndefined\<rparr>"

definition typedFrame :: "string \<Rightarrow> frame" where
  "typedFrame t = \<lparr>ftype = JStr t, fdata = [], fmessage = JUndefined, ferror = JUndefined\<rparr>"

definition cancelledFrame :: "string \<Rightarrow> frame" where
  "cancelledFrame m = \<lparr>ftype = JStr ''cancelled'', fdata = [], fmessage = JStr m, ferror = JUndefined\<rparr>"

definition errorFrame :: "string \<Rightarrow> frame" where
  "errorFrame e = \<lparr>ftype = JUndefined, fdata = [], fmessage = JUndefined, ferror = JStr e\<rparr>"

text \<open>The frame types \<^verbatim>\<open>ws.onmessage\<close> dispatches on before it looks at \<^verbatim>\<open>data.error\<close>.\<close>

definition recognised :: "jsval \<Rightarrow> bool" where
  "recognised t = (t \<in> {JStr ''chunk'', JStr ''end'', JStr ''done'', JStr ''cancelled''})"

text \<open>
  A turn counts as marked incomplete when its flag is \<^verbatim>\<open>false\<close>, and as not marked
  complete when the flag is anything but \<^verbatim>\<open>true\<close> (\<^verbatim>\<open>false\<close> or absent).
\<close>

definition marked_incomplete :: "InternalMessage \<Rightarrow> bool" where
  "marked_incomplete m = (isComplete m = Some False)"

definition not_complete :: "InternalMessage \<Rightarrow> bool" where
  "not_complete m = (isComplete m \<noteq> Some True)"

definition assistant_turn :: "InternalMessage \<Rightarrow> bool" where
  "assistant_turn m = (type m = MChunk \<or> type m = MResponse)"

subsection \<open>Concrete sessions\<close>

text \<open>A session whose socket has opened, and the same session after the fragment \<^verbatim>\<open>He\<close>.\<close>

definition open_state :: chat_state where
  "open_state = (initial ''s1'')\<lparr>connected := True, wsRef := Some 0,
      sockets := [\<lparr>url = ''ws://localhost:8000/ws/query'', readyState = OPEN, sent = []\<rparr>],
      chatMessages := [\<lparr>type = MSystem, content = ''Connected to WebSocket'', isComplete = Some True\<rparr>]\<rparr>"

definition streaming_state :: "component \<Rightarrow> chat_state" where
  "streaming_state c = onmessage c (chunkFrame ''He'') open_state"

definition cancelled_state :: chat_state where
  "cancelled_state = cancelRequest ProjectsChat (streaming_state ProjectsChat)"

text \<open>A page served over https with an endpoint configured with the insecure scheme.\<close>

definition secure_env :: environment where
  "secure_env = \<lparr>VITE_WEB_SOCKET_URL = Some ''ws://api.example.com/ws/query'',
                  VITE_API_HOST = None, location_protocol = ''https:''\<rparr>"

definition local_env :: environment where
  "local_env = \<lparr>VITE_WEB_SOCKET_URL = None, VITE_API_HOST = None, location_protocol = ''http:''\<rparr>"

text \<open>
  The socket opens and then closes unexpectedly, which schedules the reconnect timeout.
\<close>

definition closed_state :: chat_state where
  "closed_state = run ProjectsChat local_env [Mount, SocketOpens 0, SocketCloses 0] (initial ''s1'')"

text \<open>The same, followed by the unmount of the component.\<close>

definition teardown_trace :: "event list" where
  "teardown_trace = [Mount, SocketOpens 0, SocketCloses 0, Unmount]"

text \<open>The component unmounts while its socket is open; the socket then reports its closure.\<close>

definition open_teardown_trace :: "event list" where
  "open_teardown_trace = [Mount, SocketOpens 0, Unmount, SocketCloses 0]"

text \<open>Two answers of one fragment each, both ended by the backend.\<close>

definition two_answers_trace :: "event list" where
  "two_answers_trace =
     [Mount, SocketOpens 0,
      SocketMessage 0 (chunkFrame ''a''), SocketMessage 0 (typedFrame ''end''),
      SocketMessage 0 (chunkFrame ''b''), SocketMessage 0 (typedFrame ''end'')]"

text \<open>
  A first answer is streaming when the user starts a new chat, presses the cancel button
  and submits a second question.
\<close>

definition stale_trace :: "event list" where
  "stale_trace =
     [Mount, SocketOpens 0, SetQuery ''A'', SendQuery, SocketMessage 0 (chunkFrame ''He''),
      NewSession ''s2'', CancelRequest, SetQuery ''B'', SendQuery]"

text \<open>
  Every turn whose flag is \<^verbatim>\<open>false\<close> sits at the in-progress reference, and only
  projects/Chat.tsx creates such turns.
\<close>

definition flag_invariant :: "component \<Rightarrow> chat_state \<Rightarrow> bool" where
  "flag_invariant c s =
     (\<forall>i < length (chatMessages s). marked_incomplete (chatMessages s ! i) \<longrightarrow>
         c = ProjectsChat \<and> int i = currentResponseIndexRef s)"

section \<open>Properties\<close>

subsection \<open>Fragment accumulation\<close>

lemma onmessage_chunk:
  "ftype f = JStr ''chunk'' \<Longrightarrow> onmessage c f s = appendResponseChunk c (fdata f) s"
  by (simp add: onmessage_def)

lemma index_in_range_flags [simp]:
  "index_in_range (s\<lparr>isStreaming := a, isWaitingForResponse := b\<rparr>) = index_in_range s"
  by (simp add: index_in_range_def)

lemma index_in_range_nat:
  "index_in_range s \<Longrightarrow> nat (currentResponseIndexRef s) < length (chatMessages s)"
  by (simp add: index_in_range_def nat_less_iff)

lemma append_in_range:
  assumes "index_in_range s"
  shows "appendResponseChunk c chunk s =
     s\<lparr>isStreaming := True, isWaitingForResponse := False,
       chatMessages := (chatMessages s)[nat (currentResponseIndexRef s) :=
          (chatMessages s ! nat (currentResponseIndexRef s))
            \<lparr>content := content (chatMessages s ! nat (currentResponseIndexRef s)) @ chunk\<rparr>]\<rparr>"
  using assms by (simp add: appendResponseChunk_def Let_def)

lemma append_out_of_range:
  assumes "\<not> index_in_range s"
  shows "appendResponseChunk c chunk s =
     s\<lparr>isStreaming := True, isWaitingForResponse := False,
       currentResponseIndexRef := int (length (chatMessages s)),
       chatMessages := chatMessages s @ [newMessage c chunk]\<rparr>"
  using assms by (simp add: appendResponseChunk_def Let_def)

lemma chunks_in_range:
  assumes "\<forall>f \<in> set fs. ftype f = JStr ''chunk''" and "index_in_range s"
  shows "currentResponseIndexRef (fold (onmessage c) fs s) = currentResponseIndexRef s \<and>
         chatMessages (fold (onmessage c) fs s) =
           (chatMessages s)[nat (currentResponseIndexRef s) :=
              (chatMessages s ! nat (currentResponseIndexRef s))
                \<lparr>content := content (chatMessages s ! nat (currentResponseIndexRef s))
                             @ concat (map fdata fs)\<rparr>]"
  using assms
proof (induction fs arbitrary: s)
  case Nil
  then show ?case by simp
next
  case (Cons f fs)
  let ?s1 = "onmessage c f s"
  have s1: "?s1 = appendResponseChunk c (fdata f) s"
    using Cons.prems(1) by (simp add: onmessage_chunk)
  have r: "index_in_range ?s1"
    using Cons.prems(2) by (simp add: s1 append_in_range index_in_range_def)
  have "\<forall>f \<in> set fs. ftype f = JStr ''chunk''"
    using Cons.prems(1) by simp
  moreover have n: "nat (currentResponseIndexRef s) < length (chatMessages s)"
    using Cons.prems(2) by (rule index_in_range_nat)
  ultimately show ?case
    using Cons.IH[OF _ r] Cons.prems(2) by (simp add: s1 append_in_range)
qed

lemma newMessage_extend:
  "(newMessage c a)\<lparr>content := content (newMessage c a) @ b\<rparr> = newMessage c (a @ b)"
  by (cases c) (simp_all add: newMessage_def)

lemma chunks_from_none:
  assumes "\<forall>f \<in> set fs. ftype f = JStr ''chunk''" and "\<not> index_in_range s" and "fs \<noteq> []"
  shows "currentResponseIndexRef (fold (onmessage c) fs s) = int (length (chatMessages s)) \<and>
         chatMessages (fold (onmessage c) fs s) =
           chatMessages s @ [newMessage c (concat (map fdata fs))]"
proof (cases fs)
  case Nil
  with assms(3) show ?thesis by simp
next
  case (Cons f gs)
  let ?s1 = "onmessage c f s"
  have s1: "?s1 = appendResponseChunk c (fdata f) s"
    using assms(1) Cons by (simp add: onmessage_chunk)
  have r: "index_in_range ?s1"
    using assms(2) by (simp add: s1 append_out_of_range index_in_range_def)
  have g: "\<forall>f \<in> set gs. ftype f = JStr ''chunk''"
    using assms(1) Cons by simp
  show ?thesis
    using chunks_in_range[OF g r, of c] assms(2)
    by (simp add: Cons s1 append_out_of_range newMessage_extend)
qed

text \<open>
  Claim C1. For every sequence of chunk frames: while the in-progress reference resolves
  to a turn, the reference stays where it is and that turn's text becomes its previous
  text followed by the fragments in delivery order, every other turn being untouched;
  when the reference does not resolve and at least one fragment arrives, one new turn is
  appended whose text is the concatenation of the fragments, and the reference records
  its position.
\<close>

theorem chunk_sequence_concatenates:
  assumes "\<forall>f \<in> set fs. ftype f = JStr ''chunk''"
  shows "(index_in_range s \<longrightarrow>
            currentResponseIndexRef (fold (onmessage c) fs s) = currentResponseIndexRef s \<and>
            chatMessages (fold (onmessage c) fs s) =
              (chatMessages s)[nat (currentResponseIndexRef s) :=
                 (chatMessages s ! nat (currentResponseIndexRef s))
                   \<lparr>content := content (chatMessages s ! nat (currentResponseIndexRef s))
                                @ concat (map fdata fs)\<rparr>]) \<and>
         (\<not> index_in_range s \<and> fs \<noteq> [] \<longrightarrow>
            currentResponseIndexRef (fold (onmessage c) fs s) = int (length (chatMessages s)) \<and>
            chatMessages (fold (onmessage c) fs s) =
              chatMessages s @ [newMessage c (concat (map fdata fs))])"
  using chunks_in_range[OF assms] chunks_from_none[OF assms] by blast

theorem chunk_sequence_concatenates_witness:
  "ftype (chunkFrame ''He'') = JStr ''chunk'' \<and> ftype (chunkFrame ''llo'') = JStr ''chunk'' \<and>
   \<not> index_in_range (initial ''s1'') \<and>
   chatMessages (fold (onmessage ProjectsChat) [chunkFrame ''He'', chunkFrame ''llo''] (initial ''s1''))
     = [\<lparr>type = MChunk, content = ''Hello'', isComplete = Some False\<rparr>] \<and>
   index_in_range (appendResponseChunk ChatComponent ''He'' (initial ''s1'')) \<and>
   chatMessages (fold (onmessage ChatComponent) [chunkFrame ''l'', chunkFrame ''lo'']
                   (appendResponseChunk ChatComponent ''He'' (initial ''s1'')))
     = [\<lparr>type = MChunk, content = ''Hello'', isComplete = None\<rparr>]"
  using chunk_sequence_concatenates[of "[chunkFrame ''He'', chunkFrame ''llo'']" "initial ''s1''" ProjectsChat]
        chunk_sequence_concatenates[of "[chunkFrame ''l'', chunkFrame ''lo'']"
           "appendResponseChunk ChatComponent ''He'' (initial ''s1'')" ChatComponent]
  by (simp add: chunkFrame_def initial_def index_in_range_def newMessage_def
        appendResponseChunk_def Let_def)

subsection \<open>Query submission\<close>

lemma ws_is_open_query [simp]: "ws_is_open (s\<lparr>query := q\<rparr>) = ws_is_open s"
  by (simp add: ws_is_open_def split: option.splits)

lemma clickSuggestion_not_open:
  "\<not> ws_is_open s \<Longrightarrow>
     clickSuggestion c g s = s \<or> clickSuggestion c g s = s\<lparr>query := g\<rparr>"
  by (cases c) (simp_all add: clickSuggestion_def Let_def)

text \<open>
  Claim C6. When the query is empty after trimming, and likewise when the socket is not
  open, \<^verbatim>\<open>sendQuery\<close> returns the state it was given: no turn is appended, nothing is
  sent and the flags keep their values. With the socket not open, a click on a suggestion
  card leaves the transcript, the sockets and the two flags as they were too.
\<close>

theorem empty_or_disconnected_query_is_noop:
  "(js_trim (query s) = [] \<longrightarrow> sendQuery s = s) \<and>
   (\<not> ws_is_open s \<longrightarrow>
      sendQuery s = s \<and>
      chatMessages (clickSuggestion c g s) = chatMessages s \<and>
      sockets (clickSuggestion c g s) = sockets s \<and>
      isStreaming (clickSuggestion c g s) = isStreaming s \<and>
      isWaitingForResponse (clickSuggestion c g s) = isWaitingForResponse s)"
proof -
  have "\<not> ws_is_open s \<Longrightarrow> ?thesis"
    using clickSuggestion_not_open[of s c g] by (auto simp: sendQuery_def)
  moreover have "js_trim (query s) = [] \<Longrightarrow> sendQuery s = s"
    by (simp add: sendQuery_def)
  moreover have "ws_is_open s \<Longrightarrow> js_trim (query s) \<noteq> [] \<Longrightarrow> ?thesis"
    by simp
  ultimately show ?thesis by blast
qed

theorem empty_or_disconnected_query_is_noop_witness:
  "js_trim (query (open_state\<lparr>query := ''  ''\<rparr>)) = [] \<and>
   ws_is_open (open_state\<lparr>query := ''  ''\<rparr>) \<and>
   sendQuery (open_state\<lparr>query := ''  ''\<rparr>) = open_state\<lparr>query := ''  ''\<rparr> \<and>
   js_trim (query ((initial ''s1'')\<lparr>query := ''hi''\<rparr>)) = ''hi'' \<and>
   \<not> ws_is_open ((initial ''s1'')\<lparr>query := ''hi''\<rparr>) \<and>
   sendQuery ((initial ''s1'')\<lparr>query := ''hi''\<rparr>) = (initial ''s1'')\<lparr>query := ''hi''\<rparr>"
  using empty_or_disconnected_query_is_noop[of "open_state\<lparr>query := ''  ''\<rparr>" ChatComponent "[]"]
        empty_or_disconnected_query_is_noop[of "(initial ''s1'')\<lparr>query := ''hi''\<rparr>" ChatComponent "[]"]
  by (simp add: open_state_def initial_def js_trim_def js_whitespace_def ws_is_open_def)

subsection \<open>Connecting\<close>

text \<open>
  Claim C7. With a socket open, \<^verbatim>\<open>connect()\<close> returns the state it was given: no socket
  is constructed, the handle is the same, and the transcript gains no notice.
\<close>

theorem connect_idempotent_when_open:
  "ws_is_open s \<Longrightarrow> connect c env s = s"
  by (simp add: connect_def)

theorem connect_idempotent_when_open_witness:
  "ws_is_open open_state \<and>
   connect ProjectsChat local_env open_state = open_state \<and>
   length (sockets (connect ProjectsChat local_env open_state)) = 1"
proof -
  have h: "ws_is_open open_state"
    by (simp add: open_state_def initial_def ws_is_open_def)
  show ?thesis
    using h connect_idempotent_when_open[OF h, of ProjectsChat local_env]
    by (simp add: open_state_def initial_def)
qed

subsection \<open>Inbound frames\<close>

text \<open>
  Claim C10. A frame whose type is none of chunk, end, done and cancelled and whose error
  field is absent or falsy changes nothing: the handler returns the state it was given.
\<close>

theorem unrecognised_frame_is_ignored:
  "\<not> recognised (ftype f) \<Longrightarrow> \<not> truthy (ferror f) \<Longrightarrow> onmessage c f s = s"
  by (simp add: onmessage_def recognised_def)

theorem unrecognised_frame_is_ignored_witness:
  "\<not> recognised (ftype \<lparr>ftype = JStr ''ping'', fdata = [], fmessage = JUndefined, ferror = JStr []\<rparr>) \<and>
   \<not> truthy (ferror \<lparr>ftype = JStr ''ping'', fdata = [], fmessage = JUndefined, ferror = JStr []\<rparr>) \<and>
   onmessage ChatComponent
     \<lparr>ftype = JStr ''ping'', fdata = [], fmessage = JUndefined, ferror = JStr []\<rparr> open_state = open_state"
proof -
  let ?f = "\<lparr>ftype = JStr ''ping'', fdata = [], fmessage = JUndefined, ferror = JStr []\<rparr>"
  have a: "\<not> recognised (ftype ?f)" by (simp add: recognised_def)
  have b: "\<not> truthy (ferror ?f)" by simp
  show ?thesis
    using a b unrecognised_frame_is_ignored[OF a b, of ChatComponent open_state] by simp
qed

text \<open>
  Claim C8, as amended. A frame whose type is none of chunk, end, done and cancelled and
  whose error field is truthy clears the streaming and waiting flags and appends exactly
  one error turn that carries the rendered error; the turns already in the transcript,
  the in-progress reference, the socket handle and the sockets are left as they were, so
  the turn in progress is not finalized and the connection is not closed.
\<close>

theorem error_frame_handling:
  assumes "\<not> recognised (ftype f)" and "truthy (ferror f)"
  shows "onmessage c f s =
           s\<lparr>isStreaming := False, isWaitingForResponse := False,
             chatMessages := chatMessages s @
               [\<lparr>type = MError, content = ''Error: '' @ js_to_string (ferror f), isComplete = Some True\<rparr>]\<rparr>"
  using assms by (simp add: onmessage_def recognised_def addMessage_def)

lemma streaming_state_eq:
  "streaming_state c =
     open_state\<lparr>isStreaming := True, currentResponseIndexRef := 1,
       chatMessages := [\<lparr>type = MSystem, content = ''Connected to WebSocket'', isComplete = Some True\<rparr>,
                        newMessage c ''He'']\<rparr>"
  by (simp add: streaming_state_def onmessage_def chunkFrame_def appendResponseChunk_def Let_def
        index_in_range_def open_state_def initial_def)

theorem error_frame_handling_witness:
  "\<not> recognised (ftype (errorFrame ''boom'')) \<and> truthy (ferror (errorFrame ''boom'')) \<and>
   chatMessages (onmessage ProjectsChat (errorFrame ''boom'') (streaming_state ProjectsChat)) =
     [\<lparr>type = MSystem, content = ''Connected to WebSocket'', isComplete = Some True\<rparr>,
      \<lparr>type = MChunk, content = ''He'', isComplete = Some False\<rparr>,
      \<lparr>type = MError, content = ''Error: boom'', isComplete = Some True\<rparr>] \<and>
   currentResponseIndexRef (onmessage ProjectsChat (errorFrame ''boom'') (streaming_state ProjectsChat)) = 1 \<and>
   sockets (onmessage ProjectsChat (errorFrame ''boom'') (streaming_state ProjectsChat)) =
     sockets (streaming_state ProjectsChat) \<and>
   \<not> isStreaming (onmessage ProjectsChat (errorFrame ''boom'') (streaming_state ProjectsChat))"
proof -
  have a: "\<not> recognised (ftype (errorFrame ''boom''))"
    by (simp add: errorFrame_def recognised_def)
  have b: "truthy (ferror (errorFrame ''boom''))"
    by (simp add: errorFrame_def)
  show ?thesis
    using a b error_frame_handling[OF a b, of ProjectsChat "streaming_state ProjectsChat"]
    by (simp add: streaming_state_eq errorFrame_def newMessage_def open_state_def initial_def)
qed

text \<open>
  The claim as stated speaks of every frame that contains an error field. A frame that
  also carries the type chunk is handled as a chunk: streaming becomes true and no error
  turn is appended. A frame whose error field is the empty string is ignored.
\<close>

theorem error_field_counterexample:
  "isStreaming (onmessage ProjectsChat
      \<lparr>ftype = JStr ''chunk'', fdata = ''x'', fmessage = JUndefined, ferror = JStr ''boom''\<rparr> open_state) \<and>
   chatMessages (onmessage ProjectsChat
      \<lparr>ftype = JStr ''chunk'', fdata = ''x'', fmessage = JUndefined, ferror = JStr ''boom''\<rparr> open_state)
     = chatMessages open_state @ [\<lparr>type = MChunk, content = ''x'', isComplete = Some False\<rparr>] \<and>
   onmessage ProjectsChat
      \<lparr>ftype = JUndefined, fdata = [], fmessage = JUndefined, ferror = JStr []\<rparr> open_state = open_state"
  by (simp add: onmessage_def appendResponseChunk_def Let_def index_in_range_def newMessage_def
        open_state_def initial_def)

subsection \<open>Finalization\<close>

lemma terminal_frame:
  assumes "ftype f = JStr ''end'' \<or> ftype f = JStr ''done'' \<or> ftype f = JStr ''cancelled''"
  shows "\<exists>notice. onmessage c f s =
           addMessage MSystem notice
             ((completeCurrentResponse c s)\<lparr>isStreaming := False, isWaitingForResponse := False\<rparr>)"
  using assms by (auto simp: onmessage_def)

lemma complete_in_range_clears:
  "index_in_range s \<Longrightarrow> currentResponseIndexRef (completeCurrentResponse c s) = - 1"
  by (cases c) (simp_all add: completeCurrentResponse_def Let_def index_in_range_def)

lemma complete_length [simp]:
  "length (chatMessages (completeCurrentResponse c s)) = length (chatMessages s)"
  by (cases c) (simp_all add: completeCurrentResponse_def Let_def)

lemma terminal_frame_clears_reference:
  assumes "ftype f = JStr ''end'' \<or> ftype f = JStr ''done'' \<or> ftype f = JStr ''cancelled''"
      and "index_in_range s"
  shows "currentResponseIndexRef (onmessage c f s) = - 1 \<and>
         \<not> isStreaming (onmessage c f s) \<and> \<not> isWaitingForResponse (onmessage c f s) \<and>
         chatMessages (onmessage c (chunkFrame x) (onmessage c f s)) =
           chatMessages (onmessage c f s) @ [newMessage c x]"
proof -
  obtain notice where eq: "onmessage c f s =
      addMessage MSystem notice
        ((completeCurrentResponse c s)\<lparr>isStreaming := False, isWaitingForResponse := False\<rparr>)"
    using terminal_frame[OF assms(1)] by blast
  have r: "currentResponseIndexRef (onmessage c f s) = - 1"
    by (simp add: eq addMessage_def complete_in_range_clears[OF assms(2)])
  then have "\<not> index_in_range (onmessage c f s)"
    by (simp add: index_in_range_def)
  then have "chatMessages (onmessage c (chunkFrame x) (onmessage c f s)) =
           chatMessages (onmessage c f s) @ [newMessage c x]"
    by (simp add: onmessage_chunk chunkFrame_def append_out_of_range)
  moreover have "\<not> isStreaming (onmessage c f s) \<and> \<not> isWaitingForResponse (onmessage c f s)"
    by (simp add: eq addMessage_def)
  ultimately show ?thesis using r by simp
qed

lemma terminal_frame_marks_complete_ProjectsChat:
  assumes "ftype f = JStr ''end'' \<or> ftype f = JStr ''done'' \<or> ftype f = JStr ''cancelled''"
      and "index_in_range s"
  shows "isComplete (chatMessages (onmessage ProjectsChat f s) ! nat (currentResponseIndexRef s)) = Some True \<and>
         content (chatMessages (onmessage ProjectsChat f s) ! nat (currentResponseIndexRef s)) =
           content (chatMessages s ! nat (currentResponseIndexRef s))"
proof -
  obtain notice where eq: "onmessage ProjectsChat f s =
      addMessage MSystem notice
        ((completeCurrentResponse ProjectsChat s)\<lparr>isStreaming := False, isWaitingForResponse := False\<rparr>)"
    using terminal_frame[OF assms(1)] by blast
  have n: "nat (currentResponseIndexRef s) < length (chatMessages s)"
    using assms(2) by (rule index_in_range_nat)
  show ?thesis using n assms(2)
    by (simp add: eq addMessage_def nth_append completeCurrentResponse_def Let_def)
qed

lemma complete_ChatComponent_never_marks:
  "chatMessages (completeCurrentResponse ChatComponent s) = chatMessages s"
  by (simp add: completeCurrentResponse_def Let_def)

text \<open>
  Claim C3. In ChatComponent.tsx an end frame that arrives while the turn \<^verbatim>\<open>He\<close> is in
  progress clears the reference and the flags, but the turn keeps the type chunk and
  its complete flag stays absent: it is not marked complete. (projects/Chat.tsx marks
  it, see \<open>terminal_frame_marks_complete_ProjectsChat\<close>.)
\<close>

theorem ChatComponent_end_leaves_turn_unmarked:
  "chatMessages (onmessage ChatComponent (typedFrame ''end'') (streaming_state ChatComponent)) =
     [\<lparr>type = MSystem, content = ''Connected to WebSocket'', isComplete = Some True\<rparr>,
      \<lparr>type = MChunk, content = ''He'', isComplete = None\<rparr>,
      \<lparr>type = MSystem, content = ''--- End of Response ---'', isComplete = Some True\<rparr>] \<and>
   currentResponseIndexRef (streaming_state ChatComponent) = 1 \<and>
   currentResponseIndexRef (onmessage ChatComponent (typedFrame ''end'') (streaming_state ChatComponent)) = - 1"
  by (simp add: streaming_state_def onmessage_def chunkFrame_def typedFrame_def
      appendResponseChunk_def completeCurrentResponse_def Let_def index_in_range_def newMessage_def
      open_state_def initial_def addMessage_def)

lemma complete_idem:
  "completeCurrentResponse c (completeCurrentResponse c s) = completeCurrentResponse c s"
  by (cases c) (simp_all add: completeCurrentResponse_def Let_def index_in_range_def)

lemma complete_no_index:
  "currentResponseIndexRef s = - 1 \<Longrightarrow> completeCurrentResponse ProjectsChat s = s"
  by (simp add: completeCurrentResponse_def Let_def index_in_range_def)

lemma complete_PC_contents:
  "map content (chatMessages (completeCurrentResponse ProjectsChat s)) = map content (chatMessages s)"
  by (simp add: completeCurrentResponse_def Let_def map_update list_update_same_conv index_in_range_nat)

lemma complete_PC_flags:
  assumes "\<forall>m \<in> set (chatMessages s). isComplete m = Some True"
  shows "map isComplete (chatMessages (completeCurrentResponse ProjectsChat s)) =
           map isComplete (chatMessages s)"
  using assms
  by (simp add: completeCurrentResponse_def Let_def map_update list_update_same_conv index_in_range_nat)

lemma cancelled_frame:
  "ftype f = JStr ''cancelled'' \<Longrightarrow>
   onmessage c f s =
     addMessage MSystem (''--- Request cancelled: '' @ js_to_string (fmessage f) @ '' ---'')
       ((completeCurrentResponse c s)\<lparr>isStreaming := False, isWaitingForResponse := False\<rparr>)"
  by (simp add: onmessage_def)

text \<open>
  Claim C9. \<^verbatim>\<open>completeCurrentResponse\<close> applied twice is \<^verbatim>\<open>completeCurrentResponse\<close>
  applied once. A cancelled frame that arrives when no turn is in progress (the reference
  is cleared, or every turn is marked complete; in ChatComponent.tsx in any state) leaves
  the text and the complete flag of every turn already in the transcript as they were,
  appends one system notice, and leaves both flags cleared.
\<close>

theorem finalize_idempotent:
  "completeCurrentResponse c (completeCurrentResponse c s) = completeCurrentResponse c s \<and>
   (ftype f = JStr ''cancelled'' \<and>
    (c = ChatComponent \<or> currentResponseIndexRef s = - 1 \<or>
     (\<forall>m \<in> set (chatMessages s). isComplete m = Some True)) \<longrightarrow>
      map content (chatMessages (onmessage c f s)) =
        map content (chatMessages s) @ [''--- Request cancelled: '' @ js_to_string (fmessage f) @ '' ---''] \<and>
      map isComplete (chatMessages (onmessage c f s)) = map isComplete (chatMessages s) @ [Some True] \<and>
      type (last (chatMessages (onmessage c f s))) = MSystem \<and>
      \<not> isStreaming (onmessage c f s) \<and> \<not> isWaitingForResponse (onmessage c f s))"
proof (intro conjI impI)
  show "completeCurrentResponse c (completeCurrentResponse c s) = completeCurrentResponse c s"
    by (rule complete_idem)
next
  assume h: "ftype f = JStr ''cancelled'' \<and>
    (c = ChatComponent \<or> currentResponseIndexRef s = - 1 \<or>
     (\<forall>m \<in> set (chatMessages s). isComplete m = Some True))"
  then have f: "ftype f = JStr ''cancelled''" by simp
  show "map content (chatMessages (onmessage c f s)) =
        map content (chatMessages s) @ [''--- Request cancelled: '' @ js_to_string (fmessage f) @ '' ---'']"
    by (cases c)
       (simp_all add: cancelled_frame[OF f] addMessage_def complete_ChatComponent_never_marks
          complete_PC_contents)
  show "map isComplete (chatMessages (onmessage c f s)) = map isComplete (chatMessages s) @ [Some True]"
  proof (cases c)
    case ChatComponent
    then show ?thesis
      by (simp add: cancelled_frame[OF f] addMessage_def complete_ChatComponent_never_marks)
  next
    case ProjectsChat
    with h consider "currentResponseIndexRef s = - 1"
      | "\<forall>m \<in> set (chatMessages s). isComplete m = Some True" by auto
    then show ?thesis
    proof cases
      case 1
      then show ?thesis using ProjectsChat
        by (simp add: cancelled_frame[OF f] addMessage_def complete_no_index)
    next
      case 2
      then show ?thesis using ProjectsChat
        by (simp add: cancelled_frame[OF f] addMessage_def complete_PC_flags)
    qed
  qed
  show "type (last (chatMessages (onmessage c f s))) = MSystem"
    by (simp add: cancelled_frame[OF f] addMessage_def)
  show "\<not> isStreaming (onmessage c f s)"
    by (simp add: cancelled_frame[OF f] addMessage_def)
  show "\<not> isWaitingForResponse (onmessage c f s)"
    by (simp add: cancelled_frame[OF f] addMessage_def)
qed

lemma cancelled_state_eq:
  "cancelled_state = open_state\<lparr>
      sockets := [\<lparr>url = ''ws://localhost:8000/ws/query'', readyState = OPEN,
                   sent = [CancelFlagFrame ''s1'']\<rparr>],
      chatMessages := [\<lparr>type = MSystem, content = ''Connected to WebSocket'', isComplete = Some True\<rparr>,
                       \<lparr>type = MResponse, content = ''He'', isComplete = Some True\<rparr>,
                       \<lparr>type = MSystem, content = ''--- Request cancelled by user ---'',
                          isComplete = Some True\<rparr>]\<rparr>"
  by (simp add: cancelled_state_def streaming_state_def cancelRequest_def onmessage_def chunkFrame_def
      appendResponseChunk_def completeCurrentResponse_def Let_def index_in_range_def newMessage_def
      open_state_def initial_def ws_is_open_def ws_send_def addMessage_def)

theorem finalize_idempotent_witness:
  "ftype (cancelledFrame ''stopped'') = JStr ''cancelled'' \<and>
   currentResponseIndexRef cancelled_state = - 1 \<and>
   map content (chatMessages (onmessage ProjectsChat (cancelledFrame ''stopped'') cancelled_state)) =
     [''Connected to WebSocket'', ''He'', ''--- Request cancelled by user ---'',
      ''--- Request cancelled: stopped ---''] \<and>
   map isComplete (chatMessages (onmessage ProjectsChat (cancelledFrame ''stopped'') cancelled_state)) =
     [Some True, Some True, Some True, Some True]"
  using finalize_idempotent[of ProjectsChat cancelled_state "cancelledFrame ''stopped''"]
  by (simp add: cancelled_state_eq cancelledFrame_def open_state_def initial_def)

subsection \<open>The endpoint\<close>

lemma replace_first_prefix:
  "startsWith u p \<Longrightarrow> p \<noteq> [] \<Longrightarrow> replace_first p r u = r @ drop (length p) u"
  by (cases u) (auto simp: startsWith_def)

text \<open>
  In projects/Chat.tsx a page served over https never opens an endpoint that starts with
  the insecure scheme, and a configured endpoint that starts with it has it replaced.
\<close>

lemma wsUrl_ProjectsChat_secure:
  assumes "location_protocol env = ''https:''"
  shows "\<not> startsWith (wsUrl ProjectsChat env) ''ws://''"
  using assms
  by (auto simp: wsUrl_def Let_def startsWith_def replace_first_prefix)

lemma wsUrl_ProjectsChat_upgrade:
  assumes "location_protocol env = ''https:''" and "VITE_WEB_SOCKET_URL env = Some u"
      and "startsWith u ''ws://''"
  shows "wsUrl ProjectsChat env = ''wss://'' @ drop (length ''ws://'') u"
  using assms
  by (auto simp: wsUrl_def Let_def or_default_def replace_first_prefix startsWith_def)

text \<open>ChatComponent.tsx does not look at the page's protocol at all.\<close>

lemma wsUrl_ChatComponent_ignores_protocol:
  "wsUrl ChatComponent (env\<lparr>location_protocol := p\<rparr>) = wsUrl ChatComponent env"
  by (simp add: wsUrl_def)

text \<open>
  Claim C5. On a page served over https, with the endpoint configured as
  \<^verbatim>\<open>ws://api.example.com/ws/query\<close>, \<^verbatim>\<open>connect()\<close> of ChatComponent.tsx opens the socket
  to that insecure endpoint unchanged, where \<^verbatim>\<open>connect()\<close> of projects/Chat.tsx opens
  \<^verbatim>\<open>wss://api.example.com/ws/query\<close>.
\<close>

theorem ChatComponent_connect_keeps_insecure_scheme:
  "sockets (connect ChatComponent secure_env (initial ''s1'')) =
     [\<lparr>url = ''ws://api.example.com/ws/query'', readyState = CONNECTING, sent = []\<rparr>] \<and>
   location_protocol secure_env = ''https:'' \<and>
   sockets (connect ProjectsChat secure_env (initial ''s1'')) =
     [\<lparr>url = ''wss://api.example.com/ws/query'', readyState = CONNECTING, sent = []\<rparr>]"
  by (simp add: connect_def wsUrl_def secure_env_def initial_def ws_is_open_def or_default_def
        startsWith_def Let_def)

subsection \<open>Teardown\<close>

lemma disconnect_effect:
  "wsRef (disconnect s) = None \<and>
   length (sockets (disconnect s)) = length (sockets s) \<and>
   timers (disconnect s) = timers s"
  by (simp add: disconnect_def split: option.splits)

lemma disconnect_closes:
  assumes "wsRef s = Some i" and "i < length (sockets s)"
  shows "readyState (sockets (disconnect s) ! i) = CLOSING \<or>
         readyState (sockets (disconnect s) ! i) = CLOSED"
  using assms by (simp add: disconnect_def ws_close_def)

lemma timer_fires_without_handle:
  assumes "wsRef s = None" and "0 < timers s"
  shows "timer_fires c env s =
           s\<lparr>timers := timers s - 1,
             sockets := sockets s @ [\<lparr>url = wsUrl c env, readyState = CONNECTING, sent = []\<rparr>],
             wsRef := Some (length (sockets s))\<rparr>"
  using assms
  by (simp add: timer_fires_def reconnect_def ws_absent_or_closed_def connect_def ws_is_open_def)

text \<open>
  Claim C4, as amended. Teardown closes the socket the handle refers to and clears the
  handle, constructs no socket and leaves the pending reconnect timeouts pending: it
  cancels none of them. When such a timeout fires after teardown, its guard finds no
  socket handle and \<^verbatim>\<open>connect()\<close> constructs a new socket and stores it in the handle.
\<close>

theorem teardown_leaves_reconnect_pending:
  "wsRef (disconnect s) = None \<and>
   length (sockets (disconnect s)) = length (sockets s) \<and>
   timers (disconnect s) = timers s \<and>
   (\<forall>i. wsRef s = Some i \<and> i < length (sockets s) \<longrightarrow>
        readyState (sockets (disconnect s) ! i) = CLOSING \<or>
        readyState (sockets (disconnect s) ! i) = CLOSED) \<and>
   (0 < timers s \<longrightarrow>
      sockets (timer_fires c env (disconnect s)) =
        sockets (disconnect s) @ [\<lparr>url = wsUrl c env, readyState = CONNECTING, sent = []\<rparr>] \<and>
      wsRef (timer_fires c env (disconnect s)) = Some (length (sockets s)))"
  using disconnect_effect[of s] disconnect_closes[of s]
        timer_fires_without_handle[of "disconnect s" c env]
  by simp

lemma closed_state_eq:
  "closed_state =
     \<lparr>connected = False,
      chatMessages =
        [\<lparr>type = MSystem, content = ''Connected to WebSocket'', isComplete = Some True\<rparr>,
         \<lparr>type = MSystem, content = ''Disconnected from WebSocket'', isComplete = Some True\<rparr>],
      query = [], isStreaming = False, isWaitingForResponse = False,
      sessionId = ''s1'', wsRef = Some 0, currentResponseIndexRef = - 1,
      sockets = [\<lparr>url = ''ws://localhost:8000/ws/query'', readyState = CLOSED, sent = []\<rparr>],
      timers = 1\<rparr>"
  unfolding closed_state_def by code_simp

theorem teardown_leaves_reconnect_pending_witness:
  "wsRef closed_state = Some 0 \<and> timers closed_state = 1 \<and>
   wsRef (disconnect closed_state) = None \<and>
   timers (disconnect closed_state) = 1 \<and>
   sockets (timer_fires ProjectsChat local_env (disconnect closed_state)) =
     [\<lparr>url = ''ws://localhost:8000/ws/query'', readyState = CLOSED, sent = []\<rparr>,
      \<lparr>url = ''ws://localhost:8000/ws/query'', readyState = CONNECTING, sent = []\<rparr>] \<and>
   wsRef (timer_fires ProjectsChat local_env (disconnect closed_state)) = Some 1"
  using teardown_leaves_reconnect_pending[of closed_state ProjectsChat local_env]
  by (simp add: closed_state_eq disconnect_def ws_close_def wsUrl_def local_env_def
        or_default_def Let_def)

text \<open>
  The claim as stated fails: the socket closes unexpectedly, the component unmounts
  before the timeout has elapsed, and the timeout then opens a second socket.
\<close>

theorem reconnect_fires_after_teardown:
  "wsRef (run ChatComponent local_env teardown_trace (initial ''s1'')) = None \<and>
   timers (run ChatComponent local_env teardown_trace (initial ''s1'')) = 1 \<and>
   map readyState (sockets (run ChatComponent local_env teardown_trace (initial ''s1''))) = [CLOSED] \<and>
   map readyState (sockets (run ChatComponent local_env (teardown_trace @ [TimerFires]) (initial ''s1'')))
     = [CLOSED, CONNECTING] \<and>
   wsRef (run ChatComponent local_env (teardown_trace @ [TimerFires]) (initial ''s1'')) = Some 1"
  by code_simp

text \<open>
  The handlers stay attached to a socket that teardown closes, so the closure of a
  healthy socket by teardown schedules a timeout as well, and that timeout reconnects.
\<close>

lemma teardown_of_open_socket_reconnects:
  "timers (run ProjectsChat local_env open_teardown_trace (initial ''s1'')) = 1 \<and>
   wsRef (run ProjectsChat local_env open_teardown_trace (initial ''s1'')) = None \<and>
   map readyState (sockets (run ProjectsChat local_env (open_teardown_trace @ [TimerFires])
                              (initial ''s1''))) = [CLOSED, CONNECTING]"
  by code_simp

subsection \<open>Completion flags over whole sessions\<close>

lemma flag_invariant_cong:
  "chatMessages s' = chatMessages s \<Longrightarrow> currentResponseIndexRef s' = currentResponseIndexRef s \<Longrightarrow>
   flag_invariant c s' = flag_invariant c s"
  by (simp add: flag_invariant_def)

lemma flag_invariant_addMessage:
  "flag_invariant c s \<Longrightarrow> flag_invariant c (addMessage t x s)"
  by (auto simp: flag_invariant_def addMessage_def nth_append marked_incomplete_def)

lemma flag_invariant_append:
  assumes "flag_invariant c s"
  shows "flag_invariant c (appendResponseChunk c x s)"
proof (cases "index_in_range s")
  case True
  have n: "nat (currentResponseIndexRef s) < length (chatMessages s)"
    using True by (rule index_in_range_nat)
  have "\<And>i. i < length (chatMessages s) \<Longrightarrow>
          marked_incomplete (((chatMessages s)[nat (currentResponseIndexRef s) :=
            (chatMessages s ! nat (currentResponseIndexRef s))
              \<lparr>content := content (chatMessages s ! nat (currentResponseIndexRef s)) @ x\<rparr>]) ! i)
          = marked_incomplete (chatMessages s ! i)"
    using n by (simp add: nth_list_update marked_incomplete_def)
  then show ?thesis using assms
    by (simp add: append_in_range[OF True] flag_invariant_def)
next
  case False
  have none: "\<And>i. i < length (chatMessages s) \<Longrightarrow> \<not> marked_incomplete (chatMessages s ! i)"
  proof
    fix i assume i: "i < length (chatMessages s)" and m: "marked_incomplete (chatMessages s ! i)"
    with assms have "int i = currentResponseIndexRef s" by (simp add: flag_invariant_def)
    with i have "index_in_range s" by (simp add: index_in_range_def)
    with False show False by simp
  qed
  show ?thesis using none
    by (cases c)
       (auto simp: append_out_of_range[OF False] flag_invariant_def nth_append
          marked_incomplete_def newMessage_def)
qed

lemma flag_invariant_complete:
  assumes "flag_invariant c s"
  shows "flag_invariant c (completeCurrentResponse c s)"
proof (cases c)
  case ChatComponent
  then show ?thesis using assms
    by (auto simp: completeCurrentResponse_def Let_def flag_invariant_def)
next
  case ProjectsChat
  show ?thesis
  proof (cases "index_in_range s")
    case True
    have n: "nat (currentResponseIndexRef s) < length (chatMessages s)"
      using True by (rule index_in_range_nat)
    have "\<not> marked_incomplete (((chatMessages s)[nat (currentResponseIndexRef s) :=
              (chatMessages s ! nat (currentResponseIndexRef s))
                \<lparr>type := MResponse, isComplete := Some True\<rparr>]) ! i)"
      if i: "i < length (chatMessages s)" for i
    proof (cases "i = nat (currentResponseIndexRef s)")
      case True
      then show ?thesis using n by (simp add: marked_incomplete_def)
    next
      case False
      then have "int i \<noteq> currentResponseIndexRef s" by auto
      with assms i have "\<not> marked_incomplete (chatMessages s ! i)"
        unfolding flag_invariant_def by blast
      with False show ?thesis by simp
    qed
    then show ?thesis using True ProjectsChat
      by (simp add: completeCurrentResponse_def Let_def flag_invariant_def)
  next
    case False
    then show ?thesis using assms ProjectsChat
      by (simp add: completeCurrentResponse_def Let_def)
  qed
qed

lemma flag_invariant_flags [simp]:
  "flag_invariant c (s\<lparr>isStreaming := a, isWaitingForResponse := b\<rparr>) = flag_invariant c s"
  by (simp add: flag_invariant_def)

lemma flag_invariant_onmessage:
  "flag_invariant c s \<Longrightarrow> flag_invariant c (onmessage c f s)"
  by (simp add: onmessage_def flag_invariant_append flag_invariant_addMessage
        flag_invariant_complete)

lemma ws_send_fields [simp]:
  "chatMessages (ws_send m s) = chatMessages s"
  "currentResponseIndexRef (ws_send m s) = currentResponseIndexRef s"
  by (simp_all add: ws_send_def split: option.splits)

lemma flag_invariant_ws_send [simp]:
  "flag_invariant c (ws_send m s) = flag_invariant c s"
  by (rule flag_invariant_cong) simp_all

lemma flag_invariant_query [simp]:
  "flag_invariant c (s\<lparr>query := q\<rparr>) = flag_invariant c s"
  by (simp add: flag_invariant_def)

lemma flag_invariant_connected [simp]:
  "flag_invariant c (s\<lparr>connected := q\<rparr>) = flag_invariant c s"
  by (simp add: flag_invariant_def)

lemma flag_invariant_timers [simp]:
  "flag_invariant c (s\<lparr>timers := q\<rparr>) = flag_invariant c s"
  by (simp add: flag_invariant_def)

lemma flag_invariant_set_readyState [simp]:
  "flag_invariant c (set_readyState i r s) = flag_invariant c s"
  by (simp add: flag_invariant_def set_readyState_def)

lemma flag_invariant_connect:
  "flag_invariant c (connect c' env s) = flag_invariant c s"
  by (simp add: flag_invariant_def connect_def)

lemma flag_invariant_disconnect:
  "flag_invariant c (disconnect s) = flag_invariant c s"
  by (simp add: flag_invariant_def disconnect_def split: option.splits)

lemma flag_invariant_sendQuery:
  "flag_invariant c s \<Longrightarrow> flag_invariant c (sendQuery s)"
  by (simp add: sendQuery_def flag_invariant_addMessage)

lemma flag_invariant_clickSuggestion:
  "flag_invariant c s \<Longrightarrow> flag_invariant c (clickSuggestion c g s)"
  by (cases c) (simp_all add: clickSuggestion_def Let_def flag_invariant_addMessage)

lemma flag_invariant_cancelRequest:
  "flag_invariant c s \<Longrightarrow> flag_invariant c (cancelRequest c s)"
  by (cases c)
     (simp_all add: cancelRequest_def flag_invariant_addMessage flag_invariant_complete)

lemma flag_invariant_handleNewSession:
  "flag_invariant c (handleNewSession c sid s)"
  by (cases c)
     (simp_all add: handleNewSession_def flag_invariant_def addMessage_def marked_incomplete_def)

lemma flag_invariant_step:
  assumes "flag_invariant c s"
  shows "flag_invariant c (step c env e s)"
proof (cases e)
  case Mount
  then show ?thesis using assms by (simp add: flag_invariant_connect)
next
  case Unmount
  then show ?thesis using assms by (simp add: flag_invariant_disconnect)
next
  case (SocketOpens i)
  then show ?thesis using assms
    by (simp add: socket_opens_def onopen_def flag_invariant_addMessage)
next
  case (SocketMessage i f)
  then show ?thesis using assms by (simp add: socket_message_def flag_invariant_onmessage)
next
  case (SocketErrors i)
  then show ?thesis using assms
    by (simp add: socket_errors_def onerror_def flag_invariant_addMessage)
next
  case (SocketCloses i)
  then show ?thesis using assms
    by (simp add: socket_closes_def onclose_def flag_invariant_addMessage)
next
  case TimerFires
  then show ?thesis using assms
    by (simp add: timer_fires_def reconnect_def flag_invariant_connect)
next
  case (SetQuery q)
  then show ?thesis using assms by simp
next
  case SendQuery
  then show ?thesis using assms by (simp add: flag_invariant_sendQuery)
next
  case (ClickSuggestion g)
  then show ?thesis using assms by (simp add: flag_invariant_clickSuggestion)
next
  case CancelRequest
  then show ?thesis using assms by (simp add: flag_invariant_cancelRequest)
next
  case (NewSession sid)
  then show ?thesis by (simp add: flag_invariant_handleNewSession)
qed

lemma flag_invariant_run:
  "flag_invariant c s \<Longrightarrow> flag_invariant c (run c env evs s)"
  unfolding run_def
  by (induction evs arbitrary: s) (simp_all add: flag_invariant_step)

lemma flag_invariant_initial: "flag_invariant c (initial sid)"
  by (simp add: flag_invariant_def initial_def)

lemma reachable_at_most_one_marked_incomplete:
  assumes "s = run c env evs (initial sid)"
      and "i < length (chatMessages s)" and "marked_incomplete (chatMessages s ! i)"
      and "j < length (chatMessages s)" and "marked_incomplete (chatMessages s ! j)"
  shows "i = j \<and> int i = currentResponseIndexRef s \<and> c = ProjectsChat"
proof -
  have "flag_invariant c s"
    using assms(1) flag_invariant_run[OF flag_invariant_initial] by simp
  then have "c = ProjectsChat \<and> int i = currentResponseIndexRef s"
        and "int j = currentResponseIndexRef s"
    using assms(2-5) by (simp_all add: flag_invariant_def)
  then show ?thesis by simp
qed

lemma chunk_extends_marked_turn:
  assumes "flag_invariant c s"
      and "i < length (chatMessages s)" and "marked_incomplete (chatMessages s ! i)"
  shows "chatMessages (appendResponseChunk c x s) =
           (chatMessages s)[i := (chatMessages s ! i)\<lparr>content := content (chatMessages s ! i) @ x\<rparr>]"
proof -
  have r: "int i = currentResponseIndexRef s"
    using assms by (simp add: flag_invariant_def)
  with assms(2) have "index_in_range s" by (simp add: index_in_range_def)
  then show ?thesis using r[symmetric] by (simp add: append_in_range)
qed

text \<open>
  Claim C2. In projects/Chat.tsx, after the trace \<open>stale_trace\<close> no turn is in progress:
  the transcript holds two notices and the user turn \<^verbatim>\<open>B\<close>, all complete, while the
  reference still holds the position 2 of the answer that the new chat discarded. The
  next chunk \<^verbatim>\<open>Hi\<close> neither extends an assistant turn nor starts one: it is appended
  to the user turn, which becomes \<^verbatim>\<open>BHi\<close>.
\<close>

theorem stale_reference_extends_user_turn:
  "chatMessages (run ProjectsChat local_env stale_trace (initial ''s1'')) =
     [\<lparr>type = MSystem, content = ''--- New Session Started ---'', isComplete = Some True\<rparr>,
      \<lparr>type = MSystem, content = ''--- Request cancelled by user ---'', isComplete = Some True\<rparr>,
      \<lparr>type = MQuery, content = ''B'', isComplete = Some True\<rparr>] \<and>
   currentResponseIndexRef (run ProjectsChat local_env stale_trace (initial ''s1'')) = 2 \<and>
   chatMessages (run ProjectsChat local_env (stale_trace @ [SocketMessage 0 (chunkFrame ''Hi'')])
                   (initial ''s1'')) =
     [\<lparr>type = MSystem, content = ''--- New Session Started ---'', isComplete = Some True\<rparr>,
      \<lparr>type = MSystem, content = ''--- Request cancelled by user ---'', isComplete = Some True\<rparr>,
      \<lparr>type = MQuery, content = ''BHi'', isComplete = Some True\<rparr>]"
  by code_simp

text \<open>
  In ChatComponent.tsx the turns of both answers of \<open>two_answers_trace\<close> remain not
  marked complete after their end frames.
\<close>

lemma ChatComponent_turns_stay_unmarked:
  "filter (\<lambda>m. assistant_turn m \<and> not_complete m)
     (chatMessages (run ChatComponent local_env two_answers_trace (initial ''s1''))) =
     [\<lparr>type = MChunk, content = ''a'', isComplete = None\<rparr>,
      \<lparr>type = MChunk, content = ''b'', isComplete = None\<rparr>]"
  by code_simp

end
